theory Spec2Isabelle
  imports Complex_Main "HOL-Library.AList"
begin

section \<open>Data model (src/src/types/index.ts)\<close>

text \<open>
  JavaScript numbers that carry money are modelled as exact reals (the specification's
  decimals); a \<open>Date\<close> object is modelled by its time value, the number of milliseconds
  since the epoch. Stored date strings are taken to be well formed, so every parse yields
  a valid date. Optional fields (\<open>?\<close> or \<open>| null\<close>) are \<open>option\<close>s. Fields of
  \<open>Subscription\<close> that no computation below reads (currency, notes, is_trial, ...) are
  left out. The field \<open>id\<close> is called \<open>sub_id\<close>, and the fields \<open>date\<close>/\<open>cost\<close> of a
  price-history entry are called \<open>ph_date\<close>/\<open>ph_cost\<close>.
\<close>

type_synonym date = int

record PricePoint =
  ph_date :: string
  ph_cost :: real

record Subscription =
  sub_id :: string
  name :: string
  cost :: real
  billing_cycle :: string
  next_renewal_date :: string
  category :: string
  is_active :: bool
  cancellation_date :: "string option"
  last_used_date :: "string option"
  value_rating :: "int option"
  created_at :: string
  price_history :: "PricePoint list option"

datatype InsightType = low_value | underutilized | price_increase | duplicate_category

text \<open>
  The \<open>reason\<close> of an insight is a template literal; it is kept as the template together
  with the value spliced into it.
\<close>

datatype Reason =
    RatedStars int
  | NotUsedInOverAMonth
  | PriceIncreasedFrom real
  | MultipleSubsIn string

record Insight =
  insight_id :: string
  subscription :: Subscription
  insight_type :: InsightType
  title :: string
  reason :: Reason
  potential_savings :: real

text \<open>The element type of \<open>largestIncrease\<close>: \<open>{ ...s, increase }\<close>.\<close>

record SubscriptionIncrease =
  increased :: Subscription
  increase :: real

text \<open>An entry \<open>{ name, cost }\<close> of \<open>historicalData\<close>.\<close>

record HistoricalEntry =
  month_name :: string
  month_cost :: real

text \<open>
  A value found in a plain object that the code uses as a dictionary of numbers
  (\<open>{} as Record<string, number>\<close>):
  \<^item> \<open>Undefined\<close>: what reading a key gives that the object neither owns nor inherits;
  \<^item> \<open>Number n\<close>: a number;
  \<^item> \<open>Object\<close>: a function or object inherited from \<open>Object.prototype\<close> (what reading
    the key \<open>constructor\<close> or \<open>__proto__\<close> of a fresh object gives);
  \<^item> \<open>Text\<close>: a string that does not read as a number, which is what adding a number
    to an inherited function or object, or to such a string, produces (the source text
    of the function, or \<open>[object Object]\<close>, followed by the digits of the number). The
    characters of the string are not kept.
\<close>

datatype 'a jsvalue = Undefined | Number 'a | Text | Object

text \<open>
  The object returned by the \<open>analytics\<close> memo. \<open>categoryBreakdown\<close> is a plain object used
  as a dictionary from category to number; it is the list of its own properties in the
  order in which JavaScript enumerates them.
\<close>

record DerivedAnalytics =
  totalMonthlyCost :: real
  lastMonthCost :: real
  upcomingRenewals :: "Subscription list"
  categoryBreakdown :: "(string \<times> real jsvalue) list"
  historicalData :: "HistoricalEntry list"
  largestIncrease :: "SubscriptionIncrease option"
  biggestSaving :: "Subscription option"
  mindfulStreak :: nat
  subscriptionOfTheMonth :: "Subscription option"
  lowValueSubs :: "Subscription list"
  recommendations :: "Insight list"
  lastWeekCost :: real

section \<open>The date library\<close>

text \<open>
  The functions imported from date-fns, and the \<open>Date\<close> constructor applied to a string,
  are not part of the repository. The engine takes them as a parameter, so every general
  theorem holds for whatever they compute. \<open>startOfWeek\<close> takes the \<open>weekStartsOn\<close> option
  as its second argument and \<open>format\<close> its pattern.
\<close>

record datefns =
  newDate :: "string \<Rightarrow> date"
  parseISO :: "string \<Rightarrow> date"
  subMonths :: "date \<Rightarrow> int \<Rightarrow> date"
  subWeeks :: "date \<Rightarrow> int \<Rightarrow> date"
  addDays :: "date \<Rightarrow> int \<Rightarrow> date"
  startOfWeek :: "date \<Rightarrow> nat \<Rightarrow> date"
  isSameMonth :: "date \<Rightarrow> date \<Rightarrow> bool"
  isSameYear :: "date \<Rightarrow> date \<Rightarrow> bool"
  differenceInDays :: "date \<Rightarrow> date \<Rightarrow> int"
  format :: "date \<Rightarrow> string \<Rightarrow> string"

section \<open>The analytics memo (src/src/hooks/useSubscriptions.ts, lines 59-226)\<close>

definition initialAnalytics :: DerivedAnalytics where
  "initialAnalytics =
     \<lparr> totalMonthlyCost = 0,
       lastMonthCost = 0,
       upcomingRenewals = [],
       categoryBreakdown = [],
       historicalData = [],
       largestIncrease = None,
       biggestSaving = None,
       mindfulStreak = 0,
       subscriptionOfTheMonth = None,
       lowValueSubs = [],
       recommendations = [],
       lastWeekCost = 0 \<rparr>"

text \<open>JavaScript truthiness of an optional string and of an optional number.\<close>

definition truthy_string :: "string option \<Rightarrow> bool" where
  "truthy_string v = (case v of None \<Rightarrow> False | Some s \<Rightarrow> s \<noteq> [])"

definition truthy_number :: "int option \<Rightarrow> bool" where
  "truthy_number v = (case v of None \<Rightarrow> False | Some n \<Rightarrow> n \<noteq> 0)"

text \<open>\<open>s.price_history && s.price_history.length > 0\<close>, giving the first entry.\<close>

definition first_price :: "Subscription \<Rightarrow> PricePoint option" where
  "first_price s =
     (case price_history s of
        None \<Rightarrow> None
      | Some [] \<Rightarrow> None
      | Some (p # ps) \<Rightarrow> Some p)"

definition getMonthlyCost :: "Subscription \<Rightarrow> real" where
  "getMonthlyCost sub =
     (if billing_cycle sub = ''monthly'' then cost sub
      else if billing_cycle sub = ''yearly'' then cost sub / 12
      else if billing_cycle sub = ''weekly'' then (cost sub * 52) / 12
      else 0)"

definition compute_totalMonthlyCost :: "Subscription list \<Rightarrow> real" where
  "compute_totalMonthlyCost activeSubs =
     foldl (\<lambda>total sub. total + getMonthlyCost sub) 0 activeSubs"

definition compute_lastMonthCost :: "datefns \<Rightarrow> date \<Rightarrow> Subscription list \<Rightarrow> real" where
  "compute_lastMonthCost lib now allSubscriptions =
     (let lastMonthDate = subMonths lib now 1 in
      foldl (\<lambda>total sub. total + getMonthlyCost sub) 0
        (filter (\<lambda>s. let createdAt = newDate lib (created_at s) in
                      isSameMonth lib createdAt lastMonthDate \<and>
                      isSameYear lib createdAt lastMonthDate)
           allSubscriptions))"

definition compute_upcomingRenewals ::
  "datefns \<Rightarrow> date \<Rightarrow> Subscription list \<Rightarrow> Subscription list" where
  "compute_upcomingRenewals lib now activeSubs =
     filter (\<lambda>sub. let daysUntil = differenceInDays lib (parseISO lib (next_renewal_date sub)) now in
                    daysUntil \<ge> 0 \<and> daysUntil \<le> 7)
       activeSubs"

definition compute_lastWeekCost :: "datefns \<Rightarrow> date \<Rightarrow> Subscription list \<Rightarrow> real" where
  "compute_lastWeekCost lib now allSubscriptions =
     (let lastWeekStart = startOfWeek lib (subWeeks lib now 1) 1;
          lastWeekEnd = addDays lib lastWeekStart 6 in
      foldl (\<lambda>total sub. total + cost sub) 0
        (filter (\<lambda>s. let renewalDate = parseISO lib (next_renewal_date s) in
                      renewalDate \<ge> lastWeekStart \<and> renewalDate \<le> lastWeekEnd)
           allSubscriptions))"

text \<open>
  Plain objects as dictionaries. A fresh object \<open>{}\<close> has no property of its own and
  inherits those of \<open>Object.prototype\<close>, whose names are listed here.
\<close>

definition object_prototype_keys :: "string list" where
  "object_prototype_keys =
     [''constructor'', ''hasOwnProperty'', ''isPrototypeOf'', ''propertyIsEnumerable'',
      ''toLocaleString'', ''toString'', ''valueOf'', ''__proto__'',
      ''__defineGetter__'', ''__defineSetter__'', ''__lookupGetter__'', ''__lookupSetter__'']"

text \<open>\<open>obj[k]\<close>: the own property if there is one, else the inherited one, else \<open>undefined\<close>.\<close>

definition js_get :: "(string \<times> 'a jsvalue) list \<Rightarrow> string \<Rightarrow> 'a jsvalue" where
  "js_get obj k =
     (case map_of obj k of
        Some v \<Rightarrow> v
      | None \<Rightarrow> if k \<in> set object_prototype_keys then Object else Undefined)"

text \<open>
  \<open>(x || 0) + v\<close> for a number \<open>v\<close>: \<open>undefined\<close> and the number 0 are falsy and give
  \<open>0 + v\<close>; a non-empty string, a function and an object are truthy, and adding a number
  to them concatenates strings.
\<close>

fun or_zero_plus :: "'a::monoid_add jsvalue \<Rightarrow> 'a \<Rightarrow> 'a jsvalue" where
  "or_zero_plus Undefined v = Number (0 + v)"
| "or_zero_plus (Number n) v = Number ((if n = 0 then 0 else n) + v)"
| "or_zero_plus Text v = Text"
| "or_zero_plus Object v = Text"

text \<open>
  \<open>x > c\<close> for a number \<open>c\<close>: anything but a number converts to \<open>NaN\<close>, and every
  comparison with \<open>NaN\<close> is false.
\<close>

fun js_greater :: "'a::ord jsvalue \<Rightarrow> 'a \<Rightarrow> bool" where
  "js_greater (Number n) c = (n > c)"
| "js_greater Undefined c = False"
| "js_greater Text c = False"
| "js_greater Object c = False"

text \<open>
  The order of the own properties of an object: first the keys that are array indices
  (canonical decimal numerals up to \<open>2^32 - 2\<close>) in ascending numeric order, then the other
  keys in the order of their creation. \<open>define_property\<close> adds a key the object does not
  own yet at its place in that order.
\<close>

definition is_decimal_digit :: "char \<Rightarrow> bool" where
  "is_decimal_digit c = (48 \<le> (of_char c :: int) \<and> (of_char c :: int) \<le> 57)"

definition decimal_value :: "string \<Rightarrow> int" where
  "decimal_value s = foldl (\<lambda>a c. 10 * a + (of_char c - 48)) 0 s"

definition array_index :: "string \<Rightarrow> int option" where
  "array_index s =
     (if s \<noteq> [] \<and> list_all is_decimal_digit s \<and> (length s = 1 \<or> hd s \<noteq> CHR ''0'') \<and>
         decimal_value s \<le> 4294967294
      then Some (decimal_value s) else None)"

definition key_before :: "string \<Rightarrow> string \<Rightarrow> bool" where
  "key_before k k' =
     (case array_index k of
        None \<Rightarrow> False
      | Some i \<Rightarrow> (case array_index k' of None \<Rightarrow> True | Some j \<Rightarrow> i < j))"

fun define_property :: "string \<Rightarrow> 'v \<Rightarrow> (string \<times> 'v) list \<Rightarrow> (string \<times> 'v) list" where
  "define_property k v [] = [(k, v)]"
| "define_property k v (p # ps) =
     (if key_before k (fst p) then (k, v) # p # ps else p # define_property k v ps)"

text \<open>
  \<open>obj[k] = v\<close> for a number or string \<open>v\<close>: the key \<open>__proto__\<close> is an accessor whose
  setter ignores a value that is neither an object nor \<open>null\<close>; any other key becomes,
  or stays, a property of the object itself.
\<close>

definition js_set :: "(string \<times> 'v) list \<Rightarrow> string \<Rightarrow> 'v \<Rightarrow> (string \<times> 'v) list" where
  "js_set obj k v =
     (if k = ''__proto__'' then obj
      else if map_of obj k \<noteq> None then AList.update k v obj
      else define_property k v obj)"

text \<open>\<open>acc[k] = (acc[k] || 0) + v\<close> on a dictionary object.\<close>

definition add_to_key ::
  "(string \<times> 'a::monoid_add jsvalue) list \<Rightarrow> string \<Rightarrow> 'a \<Rightarrow> (string \<times> 'a jsvalue) list" where
  "add_to_key acc k v = js_set acc k (or_zero_plus (js_get acc k) v)"

definition compute_categoryBreakdown :: "Subscription list \<Rightarrow> (string \<times> real jsvalue) list" where
  "compute_categoryBreakdown activeSubs =
     foldl (\<lambda>acc sub. add_to_key acc (category sub) (getMonthlyCost sub)) [] activeSubs"

definition compute_historicalData ::
  "datefns \<Rightarrow> date \<Rightarrow> Subscription list \<Rightarrow> HistoricalEntry list" where
  "compute_historicalData lib now allSubscriptions =
     map (\<lambda>i. let month = subMonths lib now (5 - int i);
                  c = foldl (\<lambda>total sub. total + getMonthlyCost sub) 0
                        (filter (\<lambda>s. newDate lib (created_at s) \<le> month) allSubscriptions)
              in \<lparr> month_name = format lib month ''MMM'', month_cost = c \<rparr>)
       [0 ..< 6]"

text \<open>
  \<open>Array.prototype.sort\<close> is stable; a comparator \<open>(a, b) => key b - key a\<close> sorts by
  descending key, which is ascending order of the negated key. \<open>xs[0] || null\<close> is the head
  of the list, or \<open>null\<close> when it is empty.
\<close>

definition first_or_null :: "'a list \<Rightarrow> 'a option" where
  "first_or_null xs = (case xs of [] \<Rightarrow> None | x # _ \<Rightarrow> Some x)"

definition compute_largestIncrease :: "Subscription list \<Rightarrow> SubscriptionIncrease option" where
  "compute_largestIncrease activeSubs =
     first_or_null
       (sort_key (\<lambda>a. - increase a)
          (map (\<lambda>s. \<lparr> increased = s, increase = cost s - ph_cost (the (first_price s)) \<rparr>)
             (filter (\<lambda>s. first_price s \<noteq> None) activeSubs)))"

definition compute_biggestSaving :: "Subscription list \<Rightarrow> Subscription option" where
  "compute_biggestSaving allSubscriptions =
     first_or_null
       (sort_key (\<lambda>a. - getMonthlyCost a)
          (filter (\<lambda>s. \<not> is_active s \<and> truthy_string (cancellation_date s)) allSubscriptions))"

text \<open>
  The loop \<open>for (let i = 0; i < 12; i++) { if (...) mindfulStreak++; else break; }\<close> with its
  two variables as the arguments \<open>i\<close> and \<open>streak\<close>.
\<close>

function streak_loop :: "datefns \<Rightarrow> date \<Rightarrow> Subscription list \<Rightarrow> nat \<Rightarrow> nat \<Rightarrow> nat" where
  "streak_loop lib now allSubscriptions i streak =
     (if i < 12 then
        (let monthToCheck = subMonths lib now (int i) in
         if list_ex (\<lambda>s. isSameMonth lib (newDate lib (created_at s)) monthToCheck) allSubscriptions
         then streak_loop lib now allSubscriptions (i + 1) (streak + 1)
         else streak)
      else streak)"
  by pat_completeness auto
termination
  by (relation "measure (\<lambda>(lib, now, allSubscriptions, i, streak). 12 - i)") auto

declare streak_loop.simps [simp del]

definition compute_mindfulStreak :: "datefns \<Rightarrow> date \<Rightarrow> Subscription list \<Rightarrow> nat" where
  "compute_mindfulStreak lib now allSubscriptions = streak_loop lib now allSubscriptions 0 0"

definition compute_subscriptionOfTheMonth :: "Subscription list \<Rightarrow> Subscription option" where
  "compute_subscriptionOfTheMonth activeSubs =
     first_or_null
       (sort_key (\<lambda>a. - the (value_rating a))
          (filter (\<lambda>s. truthy_number (value_rating s)) activeSubs))"

definition compute_lowValueSubs :: "Subscription list \<Rightarrow> Subscription list" where
  "compute_lowValueSubs activeSubs =
     filter (\<lambda>s. truthy_number (value_rating s) \<and> the (value_rating s) \<le> 2) activeSubs"

text \<open>
  The recommendation pass: \<open>categoryCounts\<close> counts the active subscriptions of each
  category, and \<open>activeSubs.forEach\<close> pushes onto the array \<open>recommendations\<close>, which is
  threaded through the iteration as \<open>recs\<close>.
\<close>

definition compute_categoryCounts :: "Subscription list \<Rightarrow> (string \<times> nat jsvalue) list" where
  "compute_categoryCounts activeSubs =
     foldl (\<lambda>acc sub. add_to_key acc (category sub) 1) [] activeSubs"

definition recommend_step ::
  "datefns \<Rightarrow> date \<Rightarrow> (string \<times> nat jsvalue) list \<Rightarrow> Insight list \<Rightarrow> Subscription
     \<Rightarrow> Insight list" where
  "recommend_step lib now categoryCounts recs sub =
     (let monthlyCost = getMonthlyCost sub;
          recs1 =
            (if truthy_number (value_rating sub) \<and> the (value_rating sub) \<le> 2
             then recs @ [\<lparr> insight_id = sub_id sub @ ''-low'', subscription = sub,
                             insight_type = low_value, title = ''Low Value'',
                             reason = RatedStars (the (value_rating sub)),
                             potential_savings = monthlyCost \<rparr>]
             else recs);
          recs2 =
            (if truthy_string (last_used_date sub) \<and>
                differenceInDays lib now (parseISO lib (the (last_used_date sub))) > 30
             then recs1 @ [\<lparr> insight_id = sub_id sub @ ''-unused'', subscription = sub,
                              insight_type = underutilized, title = ''Underutilized'',
                              reason = NotUsedInOverAMonth,
                              potential_savings = monthlyCost \<rparr>]
             else recs1);
          recs3 =
            (if first_price sub \<noteq> None \<and> cost sub > ph_cost (the (first_price sub))
             then recs2 @ [\<lparr> insight_id = sub_id sub @ ''-price'', subscription = sub,
                              insight_type = price_increase, title = ''Price Increase'',
                              reason = PriceIncreasedFrom (ph_cost (the (first_price sub))),
                              potential_savings = 0 \<rparr>]
             else recs2);
          recs4 =
            (if js_greater (js_get categoryCounts (category sub)) 1 \<and>
                \<not> list_ex (\<lambda>i. insight_type i = duplicate_category \<and>
                                category (subscription i) = category sub) recs3
             then recs3 @ [\<lparr> insight_id = sub_id sub @ ''-dupe'', subscription = sub,
                              insight_type = duplicate_category, title = ''Duplicate Category'',
                              reason = MultipleSubsIn (category sub),
                              potential_savings = 0 \<rparr>]
             else recs3)
      in recs4)"

definition compute_recommendations :: "datefns \<Rightarrow> date \<Rightarrow> Subscription list \<Rightarrow> Insight list" where
  "compute_recommendations lib now activeSubs =
     (let categoryCounts = compute_categoryCounts activeSubs in
      foldl (recommend_step lib now categoryCounts) [] activeSubs)"

text \<open>
  The memo itself. The source reads the clock (\<open>new Date()\<close>) once; here the reference
  time \<open>now\<close> is an argument.
\<close>

definition analytics :: "datefns \<Rightarrow> date \<Rightarrow> Subscription list \<Rightarrow> DerivedAnalytics" where
  "analytics lib now allSubscriptions =
     (if length allSubscriptions = 0 then initialAnalytics
      else
        let activeSubs = filter is_active allSubscriptions in
        \<lparr> totalMonthlyCost = compute_totalMonthlyCost activeSubs,
          lastMonthCost = compute_lastMonthCost lib now allSubscriptions,
          upcomingRenewals = compute_upcomingRenewals lib now activeSubs,
          categoryBreakdown = compute_categoryBreakdown activeSubs,
          historicalData = compute_historicalData lib now allSubscriptions,
          largestIncrease = compute_largestIncrease activeSubs,
          biggestSaving = compute_biggestSaving allSubscriptions,
          mindfulStreak = compute_mindfulStreak lib now allSubscriptions,
          subscriptionOfTheMonth = compute_subscriptionOfTheMonth activeSubs,
          lowValueSubs = compute_lowValueSubs activeSubs,
          recommendations = compute_recommendations lib now activeSubs,
          lastWeekCost = compute_lastWeekCost lib now allSubscriptions \<rparr>)"

section \<open>The smart-recommendation classifier (lib/smartInsights, generateRecommendation)\<close>

text \<open>
  \<open>costPerUse\<close> is a number that may be \<open>Infinity\<close> (the caller passes it for a
  subscription never used). The score is built from integer weights and the integer
  rating. \<open>recommendation_score\<close> is the value of the local variable \<open>score\<close> when the
  threshold test is reached, and \<open>recommendation_reasons\<close> the array \<open>reasons\<close> at that point.
\<close>

datatype CostPerUse = Finite real | Infinity

fun cpu_less :: "CostPerUse \<Rightarrow> real \<Rightarrow> bool" where
  "cpu_less (Finite x) c = (x < c)"
| "cpu_less Infinity c = False"

fun cpu_greater :: "CostPerUse \<Rightarrow> real \<Rightarrow> bool" where
  "cpu_greater (Finite x) c = (x > c)"
| "cpu_greater Infinity c = True"

datatype Recommendation = keep | review | cancel

record RecommendationResult =
  recommendation :: Recommendation
  confidence :: real
  reasons :: "string list"

definition usage_score :: "string \<Rightarrow> int \<times> string list" where
  "usage_score usageFrequency =
     (if usageFrequency = ''daily'' then (40, [''Used daily - high engagement''])
      else if usageFrequency = ''weekly'' then (30, [''Used weekly - good engagement''])
      else if usageFrequency = ''monthly'' then (15, [''Used monthly - moderate engagement''])
      else if usageFrequency = ''rarely'' then (- 10, [''Rarely used - low engagement''])
      else if usageFrequency = ''never'' then (- 30, [''Never used - no engagement''])
      else (0, []))"

definition rating_score :: "Subscription \<Rightarrow> int \<times> string list" where
  "rating_score sub =
     (if truthy_number (value_rating sub) then
        (let r = the (value_rating sub); ratingScore = (r - 3) * 10 in
         (ratingScore,
          if r \<ge> 4 then [''High user rating - valuable service'']
          else if r \<le> 2 then [''Low user rating - questionable value'']
          else []))
      else (0, []))"

definition cost_score :: "CostPerUse \<Rightarrow> int \<times> string list" where
  "cost_score costPerUse =
     (if cpu_less costPerUse 1 then (20, [''Excellent cost per use ratio''])
      else if cpu_less costPerUse 5 then (10, [''Good cost per use ratio''])
      else if cpu_greater costPerUse 20 then (- 20, [''High cost per use - expensive for usage''])
      else (0, []))"

definition trend_score :: "string \<Rightarrow> int \<times> string list" where
  "trend_score valueTrend =
     (if valueTrend = ''increasing'' then (15, [''Value trend is increasing''])
      else if valueTrend = ''decreasing'' then (- 15, [''Value trend is decreasing''])
      else (0, []))"

definition recommendation_score :: "Subscription \<Rightarrow> string \<Rightarrow> string \<Rightarrow> CostPerUse \<Rightarrow> int" where
  "recommendation_score sub usageFrequency valueTrend costPerUse =
     0 + fst (usage_score usageFrequency) + fst (rating_score sub)
       + fst (cost_score costPerUse) + fst (trend_score valueTrend)"

definition recommendation_reasons ::
  "Subscription \<Rightarrow> string \<Rightarrow> string \<Rightarrow> CostPerUse \<Rightarrow> string list" where
  "recommendation_reasons sub usageFrequency valueTrend costPerUse =
     snd (usage_score usageFrequency) @ snd (rating_score sub)
       @ snd (cost_score costPerUse) @ snd (trend_score valueTrend)"

definition generateRecommendation ::
  "Subscription \<Rightarrow> string \<Rightarrow> string \<Rightarrow> CostPerUse \<Rightarrow> RecommendationResult" where
  "generateRecommendation sub usageFrequency valueTrend costPerUse =
     (let score = recommendation_score sub usageFrequency valueTrend costPerUse;
          rs = recommendation_reasons sub usageFrequency valueTrend costPerUse
      in
      if score \<ge> 40 then
        \<lparr> recommendation = keep,
          confidence = min (9 / 10) (real_of_int score / 50),
          reasons = rs @ [''Strong indicators suggest keeping this subscription''] \<rparr>
      else if score \<ge> 10 then
        \<lparr> recommendation = review,
          confidence = 7 / 10,
          reasons = rs @ [''Mixed signals - review usage and value''] \<rparr>
      else
        \<lparr> recommendation = cancel,
          confidence = min (9 / 10) (real_of_int \<bar>score\<bar> / 30),
          reasons = rs @ [''Multiple indicators suggest canceling''] \<rparr>)"

section \<open>The date library in the UTC time zone\<close>

text \<open>
  A concrete instance of the library, used to evaluate the engine on explicit inputs:
  date-fns as it behaves when the local time zone is UTC. Days are counted from
  1970-01-01 and converted to and from the proleptic Gregorian calendar; months are
  numbered from 1. The parser reads \<open>YYYY-MM-DD\<close>, optionally followed by \<open>Thh:mm:ss\<close>,
  as a UTC time (a zone suffix or a fraction of a second is not interpreted), and
  \<open>format\<close> is given for the pattern \<open>MMM\<close> only.
  \<^item> \<open>subMonths\<close> keeps the time of day and the day of the month, clamped to the length of
    the target month.
  \<^item> \<open>startOfWeek\<close> goes back to the last day whose weekday is \<open>weekStartsOn\<close>
    (0 is Sunday; 1970-01-01 was a Thursday) at midnight.
  \<^item> \<open>differenceInDays\<close> is the number of full days between the two dates, truncated
    towards zero.
\<close>

definition ms_per_day :: int where
  "ms_per_day = 86400000"

definition days_from_civil :: "int \<Rightarrow> int \<Rightarrow> int \<Rightarrow> int" where
  "days_from_civil y m d =
     (let y' = (if m \<le> 2 then y - 1 else y);
          era = y' div 400;
          yoe = y' - era * 400;
          doy = (153 * (if m > 2 then m - 3 else m + 9) + 2) div 5 + d - 1;
          doe = yoe * 365 + yoe div 4 - yoe div 100 + doy
      in era * 146097 + doe - 719468)"

definition civil_from_days :: "int \<Rightarrow> int \<times> int \<times> int" where
  "civil_from_days z =
     (let z' = z + 719468;
          era = z' div 146097;
          doe = z' - era * 146097;
          yoe = (doe - doe div 1460 + doe div 36524 - doe div 146096) div 365;
          y = yoe + era * 400;
          doy = doe - (365 * yoe + yoe div 4 - yoe div 100);
          mp = (5 * doy + 2) div 153;
          d = doy - (153 * mp + 2) div 5 + 1;
          m = (if mp < 10 then mp + 3 else mp - 9)
      in (if m \<le> 2 then y + 1 else y, m, d))"

definition digits_value :: "string \<Rightarrow> int" where
  "digits_value s = foldl (\<lambda>a c. 10 * a + (of_char c - 48)) 0 s"

definition utc_parse :: "string \<Rightarrow> date" where
  "utc_parse s =
     days_from_civil (digits_value (take 4 s)) (digits_value (take 2 (drop 5 s)))
         (digits_value (take 2 (drop 8 s))) * ms_per_day
     + (digits_value (take 2 (drop 11 s)) * 3600 + digits_value (take 2 (drop 14 s)) * 60
        + digits_value (take 2 (drop 17 s))) * 1000"

definition utc_subMonths :: "date \<Rightarrow> int \<Rightarrow> date" where
  "utc_subMonths t amount =
     (case civil_from_days (t div ms_per_day) of (y, m, dayOfMonth) \<Rightarrow>
        let idx = y * 12 + (m - 1) - amount;
            y2 = idx div 12;
            m2 = idx mod 12 + 1;
            daysInMonth = days_from_civil ((idx + 1) div 12) ((idx + 1) mod 12 + 1) 1
                          - days_from_civil y2 m2 1
        in days_from_civil y2 m2 (min dayOfMonth daysInMonth) * ms_per_day + t mod ms_per_day)"

definition utc_addDays :: "date \<Rightarrow> int \<Rightarrow> date" where
  "utc_addDays t amount = t + amount * ms_per_day"

definition utc_subWeeks :: "date \<Rightarrow> int \<Rightarrow> date" where
  "utc_subWeeks t amount = utc_addDays t (- (amount * 7))"

definition utc_startOfWeek :: "date \<Rightarrow> nat \<Rightarrow> date" where
  "utc_startOfWeek t weekStartsOn =
     (let day = (t div ms_per_day + 4) mod 7;
          diff = (if day < int weekStartsOn then 7 else 0) + day - int weekStartsOn
      in (t div ms_per_day - diff) * ms_per_day)"

definition utc_isSameYear :: "date \<Rightarrow> date \<Rightarrow> bool" where
  "utc_isSameYear a b =
     (fst (civil_from_days (a div ms_per_day)) = fst (civil_from_days (b div ms_per_day)))"

definition utc_isSameMonth :: "date \<Rightarrow> date \<Rightarrow> bool" where
  "utc_isSameMonth a b =
     (fst (civil_from_days (a div ms_per_day)) = fst (civil_from_days (b div ms_per_day)) \<and>
      fst (snd (civil_from_days (a div ms_per_day))) = fst (snd (civil_from_days (b div ms_per_day))))"

definition utc_differenceInDays :: "date \<Rightarrow> date \<Rightarrow> int" where
  "utc_differenceInDays laterDate earlierDate =
     sgn (laterDate - earlierDate) * (\<bar>laterDate - earlierDate\<bar> div ms_per_day)"

definition utc_format :: "date \<Rightarrow> string \<Rightarrow> string" where
  "utc_format t pattern =
     (if pattern = ''MMM''
      then [''Jan'', ''Feb'', ''Mar'', ''Apr'', ''May'', ''Jun'',
            ''Jul'', ''Aug'', ''Sep'', ''Oct'', ''Nov'', ''Dec'']
           ! nat (fst (snd (civil_from_days (t div ms_per_day))) - 1)
      else [])"

definition utc :: datefns where
  "utc = \<lparr> newDate = utc_parse, parseISO = utc_parse, subMonths = utc_subMonths,
           subWeeks = utc_subWeeks, addDays = utc_addDays, startOfWeek = utc_startOfWeek,
           isSameMonth = utc_isSameMonth, isSameYear = utc_isSameYear,
           differenceInDays = utc_differenceInDays, format = utc_format \<rparr>"

section \<open>Sample data\<close>

text \<open>The sample subscription of the repository's testing guide, and the dates used below.\<close>

definition mockSubscription :: Subscription where
  "mockSubscription =
     \<lparr> sub_id = ''1'', name = ''Netflix'', cost = 1599 / 100, billing_cycle = ''monthly'',
       next_renewal_date = ''2024-03-15'', category = ''Entertainment'', is_active = True,
       cancellation_date = None, last_used_date = None, value_rating = None,
       created_at = ''2024-01-01T00:00:00Z'', price_history = None \<rparr>"

definition price_drop_sub :: Subscription where
  "price_drop_sub =
     mockSubscription\<lparr> cost := 5,
       price_history := Some [\<lparr> ph_date = ''2024-01-01'', ph_cost = 8 \<rparr>] \<rparr>"

definition renews_jan_10 :: Subscription where
  "renews_jan_10 = mockSubscription\<lparr> next_renewal_date := ''2025-01-10'' \<rparr>"

definition renews_jan_08 :: Subscription where
  "renews_jan_08 =
     mockSubscription\<lparr> sub_id := ''2'', name := ''Hulu'', next_renewal_date := ''2025-01-08'' \<rparr>"

definition yearly_sub :: Subscription where
  "yearly_sub =
     mockSubscription\<lparr> sub_id := ''3'', name := ''Cloud'', cost := 120, billing_cycle := ''yearly'',
       category := ''Productivity'', next_renewal_date := ''2025-01-08'',
       created_at := ''2024-12-20T00:00:00Z'' \<rparr>"

text \<open>
  Subscriptions whose category is the name of a property that every plain object
  inherits.
\<close>

definition constructor_sub_a :: Subscription where
  "constructor_sub_a = mockSubscription\<lparr> category := ''constructor'' \<rparr>"

definition constructor_sub_b :: Subscription where
  "constructor_sub_b =
     mockSubscription\<lparr> sub_id := ''2'', name := ''Hulu'', category := ''constructor'' \<rparr>"

definition proto_sub :: Subscription where
  "proto_sub = mockSubscription\<lparr> category := ''__proto__'' \<rparr>"

text \<open>Two reference times: Monday 6 January 2025 and Wednesday 15 January 2025, at midnight.\<close>

definition now_jan_06 :: date where
  "now_jan_06 = newDate utc ''2025-01-06T00:00:00Z''"

definition now_jan_15 :: date where
  "now_jan_15 = newDate utc ''2025-01-15T00:00:00Z''"

section \<open>Auxiliary notions for the proofs\<close>

text \<open>
  An insight is a duplicate-category insight for category \<open>c\<close>; and the count stored for
  \<open>c\<close> in \<open>categoryCounts\<close> exceeds one.
\<close>

definition dup_for :: "string \<Rightarrow> Insight \<Rightarrow> bool" where
  "dup_for c i = (insight_type i = duplicate_category \<and> category (subscription i) = c)"

definition many_in :: "(string \<times> nat jsvalue) list \<Rightarrow> string \<Rightarrow> bool" where
  "many_in cc c = js_greater (js_get cc c) 1"

text \<open>
  Every value of a dictionary object is a number; and the sum of its values that are
  numbers.
\<close>

definition numeric_entries :: "(string \<times> 'a jsvalue) list \<Rightarrow> bool" where
  "numeric_entries obj = list_all (\<lambda>p. case snd p of Number n \<Rightarrow> True | _ \<Rightarrow> False) obj"

definition entries_sum :: "(string \<times> real jsvalue) list \<Rightarrow> real" where
  "entries_sum obj = sum_list (map (\<lambda>p. case snd p of Number n \<Rightarrow> n | _ \<Rightarrow> 0) obj)"

section \<open>Basic facts about the memo\<close>

lemma foldl_plus_sum_list:
  fixes a :: real
  shows "foldl (\<lambda>total sub. total + f sub) a xs = a + sum_list (map f xs)"
  by (induction xs arbitrary: a) (simp_all add: algebra_simps)

lemma analytics_Nil: "analytics lib now [] = initialAnalytics"
  by (simp add: analytics_def)

lemma analytics_Cons_fields:
  assumes "subs \<noteq> []"
  shows "totalMonthlyCost (analytics lib now subs) = compute_totalMonthlyCost (filter is_active subs)"
    and "lastMonthCost (analytics lib now subs) = compute_lastMonthCost lib now subs"
    and "upcomingRenewals (analytics lib now subs) = compute_upcomingRenewals lib now (filter is_active subs)"
    and "categoryBreakdown (analytics lib now subs) = compute_categoryBreakdown (filter is_active subs)"
    and "historicalData (analytics lib now subs) = compute_historicalData lib now subs"
    and "largestIncrease (analytics lib now subs) = compute_largestIncrease (filter is_active subs)"
    and "biggestSaving (analytics lib now subs) = compute_biggestSaving subs"
    and "mindfulStreak (analytics lib now subs) = compute_mindfulStreak lib now subs"
    and "recommendations (analytics lib now subs) = compute_recommendations lib now (filter is_active subs)"
    and "lastWeekCost (analytics lib now subs) = compute_lastWeekCost lib now subs"
  using assms by (simp_all add: analytics_def Let_def)

lemma getMonthlyCost_is_active_update:
  "getMonthlyCost (s\<lparr>is_active := b\<rparr>) = getMonthlyCost s"
  by (simp add: getMonthlyCost_def)

lemma analytics_active_only_fields:
  "totalMonthlyCost (analytics lib now subs)
     = totalMonthlyCost (analytics lib now (filter is_active subs))"
  "categoryBreakdown (analytics lib now subs)
     = categoryBreakdown (analytics lib now (filter is_active subs))"
  "upcomingRenewals (analytics lib now subs)
     = upcomingRenewals (analytics lib now (filter is_active subs))"
  "recommendations (analytics lib now subs)
     = recommendations (analytics lib now (filter is_active subs))"
proof -
  have idem: "filter is_active (filter is_active subs) = filter is_active subs"
    by simp
  have empty:
    "compute_totalMonthlyCost [] = 0"
    "compute_categoryBreakdown [] = []"
    "compute_upcomingRenewals lib now [] = []"
    "compute_recommendations lib now [] = []"
    by (simp_all add: compute_totalMonthlyCost_def compute_categoryBreakdown_def
        compute_upcomingRenewals_def compute_recommendations_def)
  show "totalMonthlyCost (analytics lib now subs)
     = totalMonthlyCost (analytics lib now (filter is_active subs))"
    by (cases "filter is_active subs = []"; cases "subs = []")
       (simp_all add: analytics_Cons_fields analytics_Nil initialAnalytics_def empty del: filter_filter)
  show "categoryBreakdown (analytics lib now subs)
     = categoryBreakdown (analytics lib now (filter is_active subs))"
    by (cases "filter is_active subs = []"; cases "subs = []")
       (simp_all add: analytics_Cons_fields analytics_Nil initialAnalytics_def empty del: filter_filter)
  show "upcomingRenewals (analytics lib now subs)
     = upcomingRenewals (analytics lib now (filter is_active subs))"
    by (cases "filter is_active subs = []"; cases "subs = []")
       (simp_all add: analytics_Cons_fields analytics_Nil initialAnalytics_def empty del: filter_filter)
  show "recommendations (analytics lib now subs)
     = recommendations (analytics lib now (filter is_active subs))"
    by (cases "filter is_active subs = []"; cases "subs = []")
       (simp_all add: analytics_Cons_fields analytics_Nil initialAnalytics_def empty del: filter_filter)
qed

section \<open>Cost normalization\<close>

text \<open>
  Claim C7. \<open>getMonthlyCost\<close> returns the cost unchanged for a monthly subscription, the
  cost divided by 12 for a yearly one, the cost times 52 divided by 12 for a weekly one,
  and 0 (never an error) for every other billing cycle, the empty string included.
\<close>

theorem getMonthlyCost_by_cycle:
  "getMonthlyCost (sub\<lparr>billing_cycle := ''monthly''\<rparr>) = cost sub \<and>
   getMonthlyCost (sub\<lparr>billing_cycle := ''yearly''\<rparr>) = cost sub / 12 \<and>
   getMonthlyCost (sub\<lparr>billing_cycle := ''weekly''\<rparr>) = cost sub * 52 / 12 \<and>
   (billing_cycle sub \<noteq> ''monthly'' \<and> billing_cycle sub \<noteq> ''yearly'' \<and>
    billing_cycle sub \<noteq> ''weekly'' \<longrightarrow> getMonthlyCost sub = 0)"
  by (simp add: getMonthlyCost_def)

text \<open>
  The four cases on the sample subscription: an unknown cycle and an empty one give 0,
  120 a year is 10 a month, 3 a week is 13 a month.
\<close>

theorem getMonthlyCost_by_cycle_witness:
  "billing_cycle (mockSubscription\<lparr>billing_cycle := ''daily''\<rparr>) \<noteq> ''monthly'' \<and>
   billing_cycle (mockSubscription\<lparr>billing_cycle := ''daily''\<rparr>) \<noteq> ''yearly'' \<and>
   billing_cycle (mockSubscription\<lparr>billing_cycle := ''daily''\<rparr>) \<noteq> ''weekly'' \<and>
   getMonthlyCost (mockSubscription\<lparr>billing_cycle := ''daily''\<rparr>) = 0 \<and>
   getMonthlyCost (mockSubscription\<lparr>billing_cycle := []\<rparr>) = 0 \<and>
   getMonthlyCost (mockSubscription\<lparr>cost := 120, billing_cycle := ''yearly''\<rparr>) = 10 \<and>
   getMonthlyCost (mockSubscription\<lparr>cost := 3, billing_cycle := ''weekly''\<rparr>) = 13 \<and>
   getMonthlyCost (mockSubscription\<lparr>billing_cycle := ''monthly''\<rparr>) = 1599 / 100"
  using getMonthlyCost_by_cycle [of "mockSubscription\<lparr>billing_cycle := ''daily''\<rparr>"]
    getMonthlyCost_by_cycle [of "mockSubscription\<lparr>billing_cycle := []\<rparr>"]
    getMonthlyCost_by_cycle [of "mockSubscription\<lparr>cost := 120\<rparr>"]
    getMonthlyCost_by_cycle [of "mockSubscription\<lparr>cost := 3\<rparr>"]
    getMonthlyCost_by_cycle [of "mockSubscription"]
  by (simp add: mockSubscription_def)

section \<open>The empty collection\<close>

text \<open>
  Claim C5. For the empty collection, whatever the reference time, the numeric fields
  \<open>totalMonthlyCost\<close>, \<open>lastMonthCost\<close>, \<open>lastWeekCost\<close> and \<open>mindfulStreak\<close> are zero, the
  fields \<open>upcomingRenewals\<close>, \<open>categoryBreakdown\<close>, \<open>historicalData\<close> and \<open>recommendations\<close>
  are empty, and \<open>largestIncrease\<close> and \<open>biggestSaving\<close> are absent.
\<close>

theorem analytics_empty_collection:
  "totalMonthlyCost (analytics lib now []) = 0 \<and>
   lastMonthCost (analytics lib now []) = 0 \<and>
   lastWeekCost (analytics lib now []) = 0 \<and>
   mindfulStreak (analytics lib now []) = 0 \<and>
   upcomingRenewals (analytics lib now []) = [] \<and>
   categoryBreakdown (analytics lib now []) = [] \<and>
   historicalData (analytics lib now []) = [] \<and>
   recommendations (analytics lib now []) = [] \<and>
   largestIncrease (analytics lib now []) = None \<and>
   biggestSaving (analytics lib now []) = None"
  by (simp add: analytics_Nil initialAnalytics_def)

section \<open>Largest increase\<close>

text \<open>
  What the memo computes: \<open>largestIncrease\<close> is absent exactly when no active subscription
  has a non-empty price history, and otherwise it is such a subscription, scored by its
  cost minus the first cost of its history, with the greatest score of all of them.
\<close>

lemma first_or_null_sort_key:
  "first_or_null (sort_key f xs) = None \<longleftrightarrow> xs = []"
  "first_or_null (sort_key f xs) = Some r \<Longrightarrow> r \<in> set xs \<and> (\<forall>x\<in>set xs. f r \<le> f x)"
proof -
  show "first_or_null (sort_key f xs) = None \<longleftrightarrow> xs = []"
    by (cases "sort_key f xs") (auto simp: first_or_null_def dest: arg_cong [where f = length])
  assume "first_or_null (sort_key f xs) = Some r"
  then obtain rest where eq: "sort_key f xs = r # rest"
    by (cases "sort_key f xs") (auto simp: first_or_null_def)
  have "sorted (map f (sort_key f xs))" by (rule sorted_sort_key)
  with eq have "\<forall>x\<in>set (r # rest). f r \<le> f x" by auto
  moreover have "set (r # rest) = set xs" using eq by (metis set_sort)
  ultimately show "r \<in> set xs \<and> (\<forall>x\<in>set xs. f r \<le> f x)" by auto
qed

lemma largestIncrease_candidates:
  "largestIncrease (analytics lib now subs) = None
     \<longleftrightarrow> filter (\<lambda>s. is_active s \<and> first_price s \<noteq> None) subs = []"
  "largestIncrease (analytics lib now subs) = Some r \<Longrightarrow>
     increased r \<in> set subs \<and> is_active (increased r) \<and> first_price (increased r) \<noteq> None \<and>
     increase r = cost (increased r) - ph_cost (the (first_price (increased r))) \<and>
     (\<forall>s\<in>set subs. is_active s \<and> first_price s \<noteq> None \<longrightarrow>
        cost s - ph_cost (the (first_price s)) \<le> increase r)"
proof -
  let ?mk = "\<lambda>s. \<lparr> increased = s, increase = cost s - ph_cost (the (first_price s)) \<rparr>"
  let ?cands = "map ?mk (filter (\<lambda>s. first_price s \<noteq> None) (filter is_active subs))"
  have field: "largestIncrease (analytics lib now subs)
      = (if subs = [] then None else first_or_null (sort_key (\<lambda>a. - increase a) ?cands))"
    by (simp add: analytics_def initialAnalytics_def Let_def compute_largestIncrease_def)
  show "largestIncrease (analytics lib now subs) = None
     \<longleftrightarrow> filter (\<lambda>s. is_active s \<and> first_price s \<noteq> None) subs = []"
    unfolding field by (auto simp: first_or_null_sort_key(1) conj_commute)
  assume "largestIncrease (analytics lib now subs) = Some r"
  then have "first_or_null (sort_key (\<lambda>a. - increase a) ?cands) = Some r"
    unfolding field by (simp split: if_splits)
  from first_or_null_sort_key(2) [OF this]
  have mem: "r \<in> set ?cands" and top: "\<forall>x\<in>set ?cands. increase x \<le> increase r"
    by auto
  from mem obtain s where s: "s \<in> set subs" "is_active s" "first_price s \<noteq> None" "r = ?mk s"
    by auto
  have "cost t - ph_cost (the (first_price t)) \<le> increase r"
    if "t \<in> set subs" "is_active t" "first_price t \<noteq> None" for t
  proof -
    from that have "?mk t \<in> set ?cands" by auto
    with top have "increase (?mk t) \<le> increase r" by blast
    then show ?thesis by simp
  qed
  with s show "increased r \<in> set subs \<and> is_active (increased r) \<and> first_price (increased r) \<noteq> None \<and>
     increase r = cost (increased r) - ph_cost (the (first_price (increased r))) \<and>
     (\<forall>s\<in>set subs. is_active s \<and> first_price s \<noteq> None \<longrightarrow>
        cost s - ph_cost (the (first_price s)) \<le> increase r)"
    by auto
qed

text \<open>
  Claim C1 says that \<open>largestIncrease\<close> is absent whenever the maximum increase is at most
  0. The memo takes the head of the sorted candidates and tests only that a candidate
  exists: for a single active subscription that costs 5 and whose price history starts
  at 8, \<open>largestIncrease\<close> is present with the increase \<open>-3\<close>, and with an unchanged price
  of 8 it is present with the increase 0.
\<close>

theorem largestIncrease_present_without_increase:
  "largestIncrease (analytics lib now [price_drop_sub])
     = Some \<lparr> increased = price_drop_sub, increase = - 3 \<rparr> \<and>
   largestIncrease (analytics lib now [price_drop_sub\<lparr> cost := 8 \<rparr>])
     = Some \<lparr> increased = price_drop_sub\<lparr> cost := 8 \<rparr>, increase = 0 \<rparr>"
  by (simp add: analytics_def Let_def compute_largestIncrease_def first_or_null_def
      first_price_def price_drop_sub_def mockSubscription_def)

section \<open>Upcoming renewals\<close>

text \<open>
  Claim C2, as amended. \<open>upcomingRenewals\<close> contains exactly the active subscriptions whose
  \<open>differenceInDays(parseISO(next_renewal_date), now)\<close> lies in \<open>[0, 7]\<close>, and lists them in
  the order of the input collection: the memo filters and does not sort.
\<close>

theorem upcomingRenewals_filter_in_input_order:
  "upcomingRenewals (analytics lib now subs) =
     filter (\<lambda>s. is_active s \<and>
                 0 \<le> differenceInDays lib (parseISO lib (next_renewal_date s)) now \<and>
                 differenceInDays lib (parseISO lib (next_renewal_date s)) now \<le> 7)
       subs"
proof (cases "subs = []")
  case True
  then show ?thesis by (simp add: analytics_Nil initialAnalytics_def)
next
  case False
  then show ?thesis
    by (simp add: analytics_Cons_fields compute_upcomingRenewals_def Let_def conj_commute conj_left_commute)
qed

text \<open>
  Claim C2 as stated fails: on Monday 6 January 2025, two active subscriptions renewing
  on 10 January and on 8 January, given in that order, are both upcoming and are
  returned in that order, the later renewal first.
\<close>

theorem upcomingRenewals_sorted_counterexample:
  "upcomingRenewals (analytics utc now_jan_06 [renews_jan_10, renews_jan_08])
     = [renews_jan_10, renews_jan_08] \<and>
   parseISO utc (next_renewal_date renews_jan_08) < parseISO utc (next_renewal_date renews_jan_10)"
proof -
  have act: "filter is_active [renews_jan_10, renews_jan_08] = [renews_jan_10, renews_jan_08]"
    by (simp add: renews_jan_10_def renews_jan_08_def mockSubscription_def)
  have "compute_upcomingRenewals utc now_jan_06 [renews_jan_10, renews_jan_08]
          = [renews_jan_10, renews_jan_08]"
    by code_simp
  moreover have "parseISO utc (next_renewal_date renews_jan_08)
                   < parseISO utc (next_renewal_date renews_jan_10)"
    by code_simp
  moreover have "upcomingRenewals (analytics utc now_jan_06 [renews_jan_10, renews_jan_08])
      = compute_upcomingRenewals utc now_jan_06 (filter is_active [renews_jan_10, renews_jan_08])"
    by (rule analytics_Cons_fields) simp
  ultimately show ?thesis
    by (simp only: act simp_thms)
qed

text \<open>
  The amended statement at a concrete collection: a renewal in the past and an inactive
  subscription are left out, and the two others keep their input order.
\<close>

theorem upcomingRenewals_filter_witness:
  "upcomingRenewals (analytics utc now_jan_06
      [renews_jan_10, mockSubscription, renews_jan_08\<lparr>is_active := False\<rparr>, renews_jan_08])
     = [renews_jan_10, renews_jan_08]"
proof -
  have "filter (\<lambda>s. is_active s \<and>
                 0 \<le> differenceInDays utc (parseISO utc (next_renewal_date s)) now_jan_06 \<and>
                 differenceInDays utc (parseISO utc (next_renewal_date s)) now_jan_06 \<le> 7)
       [renews_jan_10, mockSubscription, renews_jan_08\<lparr>is_active := False\<rparr>, renews_jan_08]
     = [renews_jan_10, renews_jan_08]"
    by code_simp
  then show ?thesis
    by (simp only: upcomingRenewals_filter_in_input_order)
qed

section \<open>Trailing costs\<close>

text \<open>
  Claim C3, as amended. \<open>lastWeekCost\<close> is the sum of the raw \<open>cost\<close> (not the
  monthly-equivalent cost) of the subscriptions whose \<open>next_renewal_date\<close> lies between the
  Monday of the previous week and the day six days later; \<open>lastMonthCost\<close> is the sum of
  the monthly-equivalent cost of the subscriptions whose \<open>created_at\<close> is in the same month
  and year as \<open>now\<close> minus one month.
\<close>

theorem trailing_costs_anchor_fields:
  "lastWeekCost (analytics lib now subs) =
     sum_list (map cost
       (filter (\<lambda>s. startOfWeek lib (subWeeks lib now 1) 1 \<le> parseISO lib (next_renewal_date s) \<and>
                    parseISO lib (next_renewal_date s)
                      \<le> addDays lib (startOfWeek lib (subWeeks lib now 1) 1) 6)
          subs)) \<and>
   lastMonthCost (analytics lib now subs) =
     sum_list (map getMonthlyCost
       (filter (\<lambda>s. isSameMonth lib (newDate lib (created_at s)) (subMonths lib now 1) \<and>
                    isSameYear lib (newDate lib (created_at s)) (subMonths lib now 1))
          subs))"
proof (cases "subs = []")
  case True
  then show ?thesis by (simp add: analytics_Nil initialAnalytics_def)
next
  case False
  then show ?thesis
    by (simp add: analytics_Cons_fields compute_lastWeekCost_def compute_lastMonthCost_def
        Let_def foldl_plus_sum_list)
qed

text \<open>
  Claim C3 as stated fails: on Wednesday 15 January 2025 the previous week runs from
  Monday 6 January to Sunday 12 January. A yearly subscription of 120 renewing on
  8 January lies in it; its monthly-equivalent cost is 10, and \<open>lastWeekCost\<close> is 120.
\<close>

theorem lastWeekCost_monthly_equivalent_counterexample:
  "lastWeekCost (analytics utc now_jan_15 [yearly_sub]) = 120 \<and>
   getMonthlyCost yearly_sub = 10 \<and>
   startOfWeek utc (subWeeks utc now_jan_15 1) 1 \<le> parseISO utc (next_renewal_date yearly_sub) \<and>
   parseISO utc (next_renewal_date yearly_sub)
     \<le> addDays utc (startOfWeek utc (subWeeks utc now_jan_15 1) 1) 6"
proof -
  have "compute_lastWeekCost utc now_jan_15 [yearly_sub] = 120"
    by code_simp
  moreover have "getMonthlyCost yearly_sub = 10"
    by code_simp
  moreover have "startOfWeek utc (subWeeks utc now_jan_15 1) 1
                   \<le> parseISO utc (next_renewal_date yearly_sub)"
    by code_simp
  moreover have "parseISO utc (next_renewal_date yearly_sub)
                   \<le> addDays utc (startOfWeek utc (subWeeks utc now_jan_15 1) 1) 6"
    by code_simp
  ultimately show ?thesis
    by (simp add: analytics_Cons_fields)
qed

text \<open>
  The amended statement at a concrete collection: the yearly subscription, created in
  December 2024, counts with its raw cost for last week and with its monthly-equivalent
  cost for last month; the sample subscription counts for neither.
\<close>

theorem trailing_costs_anchor_fields_witness:
  "lastWeekCost (analytics utc now_jan_15 [yearly_sub, mockSubscription]) = 120 \<and>
   lastMonthCost (analytics utc now_jan_15 [yearly_sub, mockSubscription]) = 10"
proof -
  have "sum_list (map cost
       (filter (\<lambda>s. startOfWeek utc (subWeeks utc now_jan_15 1) 1 \<le> parseISO utc (next_renewal_date s) \<and>
                    parseISO utc (next_renewal_date s)
                      \<le> addDays utc (startOfWeek utc (subWeeks utc now_jan_15 1) 1) 6)
          [yearly_sub, mockSubscription])) = 120"
    by code_simp
  moreover have "sum_list (map getMonthlyCost
       (filter (\<lambda>s. isSameMonth utc (newDate utc (created_at s)) (subMonths utc now_jan_15 1) \<and>
                    isSameYear utc (newDate utc (created_at s)) (subMonths utc now_jan_15 1))
          [yearly_sub, mockSubscription])) = 10"
    by code_simp
  ultimately show ?thesis
    by (simp only: trailing_costs_anchor_fields simp_thms)
qed

text \<open>
  Claim C10. For a non-empty collection, \<open>lastMonthCost\<close>, \<open>lastWeekCost\<close> and every entry of
  \<open>historicalData\<close> are sums over the whole collection: whatever the \<open>is_active\<close> flags are
  set to (\<open>g\<close> below), their values are the sums over all subscriptions, inactive ones
  included, while \<open>totalMonthlyCost\<close> follows the flags. \<open>totalMonthlyCost\<close>,
  \<open>categoryBreakdown\<close>, \<open>upcomingRenewals\<close> and \<open>recommendations\<close> are computed from the
  active subscriptions alone.
\<close>

theorem trailing_aggregates_over_full_collection:
  assumes "subs \<noteq> []"
  shows
  "lastMonthCost (analytics lib now (map (\<lambda>s. s\<lparr>is_active := g s\<rparr>) subs)) =
     sum_list (map getMonthlyCost
       (filter (\<lambda>s. isSameMonth lib (newDate lib (created_at s)) (subMonths lib now 1) \<and>
                    isSameYear lib (newDate lib (created_at s)) (subMonths lib now 1))
          subs)) \<and>
   lastWeekCost (analytics lib now (map (\<lambda>s. s\<lparr>is_active := g s\<rparr>) subs)) =
     sum_list (map cost
       (filter (\<lambda>s. startOfWeek lib (subWeeks lib now 1) 1 \<le> parseISO lib (next_renewal_date s) \<and>
                    parseISO lib (next_renewal_date s)
                      \<le> addDays lib (startOfWeek lib (subWeeks lib now 1) 1) 6)
          subs)) \<and>
   map month_cost (historicalData (analytics lib now (map (\<lambda>s. s\<lparr>is_active := g s\<rparr>) subs))) =
     map (\<lambda>i. sum_list (map getMonthlyCost
                 (filter (\<lambda>s. newDate lib (created_at s) \<le> subMonths lib now (5 - int i)) subs)))
       [0 ..< 6] \<and>
   totalMonthlyCost (analytics lib now (map (\<lambda>s. s\<lparr>is_active := g s\<rparr>) subs)) =
     sum_list (map getMonthlyCost (filter g subs)) \<and>
   totalMonthlyCost (analytics lib now subs)
     = totalMonthlyCost (analytics lib now (filter is_active subs)) \<and>
   categoryBreakdown (analytics lib now subs)
     = categoryBreakdown (analytics lib now (filter is_active subs)) \<and>
   upcomingRenewals (analytics lib now subs)
     = upcomingRenewals (analytics lib now (filter is_active subs)) \<and>
   recommendations (analytics lib now subs)
     = recommendations (analytics lib now (filter is_active subs))"
  (is "?month \<and> ?week \<and> ?hist \<and> ?total \<and> ?active")
proof -
  let ?subs' = "map (\<lambda>s. s\<lparr>is_active := g s\<rparr>) subs"
  from assms have ne: "?subs' \<noteq> []" by simp
  have m: "lastMonthCost (analytics lib now ?subs') = compute_lastMonthCost lib now ?subs'"
    and w: "lastWeekCost (analytics lib now ?subs') = compute_lastWeekCost lib now ?subs'"
    and h: "historicalData (analytics lib now ?subs') = compute_historicalData lib now ?subs'"
    and t: "totalMonthlyCost (analytics lib now ?subs') = compute_totalMonthlyCost (filter is_active ?subs')"
    using ne by (simp_all add: analytics_def Let_def)
  have "compute_lastMonthCost lib now ?subs' =
     sum_list (map getMonthlyCost
       (filter (\<lambda>s. isSameMonth lib (newDate lib (created_at s)) (subMonths lib now 1) \<and>
                    isSameYear lib (newDate lib (created_at s)) (subMonths lib now 1))
          subs))"
    by (simp add: compute_lastMonthCost_def Let_def foldl_plus_sum_list filter_map o_def
        getMonthlyCost_is_active_update)
  moreover have "compute_lastWeekCost lib now ?subs' =
     sum_list (map cost
       (filter (\<lambda>s. startOfWeek lib (subWeeks lib now 1) 1 \<le> parseISO lib (next_renewal_date s) \<and>
                    parseISO lib (next_renewal_date s)
                      \<le> addDays lib (startOfWeek lib (subWeeks lib now 1) 1) 6)
          subs))"
    by (simp add: compute_lastWeekCost_def Let_def foldl_plus_sum_list filter_map o_def)
  moreover have "map month_cost (compute_historicalData lib now ?subs') =
     map (\<lambda>i. sum_list (map getMonthlyCost
                 (filter (\<lambda>s. newDate lib (created_at s) \<le> subMonths lib now (5 - int i)) subs)))
       [0 ..< 6]"
    unfolding compute_historicalData_def
    by (simp add: Let_def foldl_plus_sum_list filter_map o_def getMonthlyCost_is_active_update)
  moreover have "compute_totalMonthlyCost (filter is_active ?subs') =
     sum_list (map getMonthlyCost (filter g subs))"
    by (simp add: compute_totalMonthlyCost_def foldl_plus_sum_list filter_map o_def
        getMonthlyCost_is_active_update)
  ultimately have "?month" and "?week" and "?hist" and "?total"
    by (simp_all only: m w h t)
  moreover have "?active"
    by (intro conjI analytics_active_only_fields)
  ultimately show ?thesis
    by blast
qed

text \<open>
  With every subscription inactive, the trailing and historical aggregates still count
  them, and \<open>totalMonthlyCost\<close> is 0.
\<close>

theorem trailing_aggregates_over_full_collection_witness:
  "[yearly_sub, mockSubscription] \<noteq> [] \<and>
   lastMonthCost (analytics utc now_jan_15
      (map (\<lambda>s. s\<lparr>is_active := False\<rparr>) [yearly_sub, mockSubscription])) = 10 \<and>
   lastWeekCost (analytics utc now_jan_15
      (map (\<lambda>s. s\<lparr>is_active := False\<rparr>) [yearly_sub, mockSubscription])) = 120 \<and>
   map month_cost (historicalData (analytics utc now_jan_15
      (map (\<lambda>s. s\<lparr>is_active := False\<rparr>) [yearly_sub, mockSubscription])))
     = [1599 / 100, 1599 / 100, 1599 / 100, 1599 / 100, 1599 / 100, 2599 / 100] \<and>
   totalMonthlyCost (analytics utc now_jan_15
      (map (\<lambda>s. s\<lparr>is_active := False\<rparr>) [yearly_sub, mockSubscription])) = 0"
proof -
  have ne: "[yearly_sub, mockSubscription] \<noteq> []" by simp
  have "sum_list (map getMonthlyCost
       (filter (\<lambda>s. isSameMonth utc (newDate utc (created_at s)) (subMonths utc now_jan_15 1) \<and>
                    isSameYear utc (newDate utc (created_at s)) (subMonths utc now_jan_15 1))
          [yearly_sub, mockSubscription])) = 10"
    by code_simp
  moreover have "sum_list (map cost
       (filter (\<lambda>s. startOfWeek utc (subWeeks utc now_jan_15 1) 1 \<le> parseISO utc (next_renewal_date s) \<and>
                    parseISO utc (next_renewal_date s)
                      \<le> addDays utc (startOfWeek utc (subWeeks utc now_jan_15 1) 1) 6)
          [yearly_sub, mockSubscription])) = 120"
    by code_simp
  moreover have "map (\<lambda>i. sum_list (map getMonthlyCost
                 (filter (\<lambda>s. newDate utc (created_at s) \<le> subMonths utc now_jan_15 (5 - int i))
                    [yearly_sub, mockSubscription])))
       [0 ..< 6] = [1599 / 100, 1599 / 100, 1599 / 100, 1599 / 100, 1599 / 100, 2599 / 100]"
    by code_simp
  moreover have "sum_list (map getMonthlyCost (filter (\<lambda>s. False) [yearly_sub, mockSubscription])) = 0"
    by simp
  ultimately show ?thesis
    using trailing_aggregates_over_full_collection [OF ne, of utc now_jan_15 "\<lambda>s. False"]
    by (simp only: simp_thms ne)
qed

section \<open>Plain objects as dictionaries\<close>

lemma map_of_define_property:
  "map_of obj k = None \<Longrightarrow> map_of (define_property k v obj) = (map_of obj)(k \<mapsto> v)"
  by (induction obj) (auto simp: fun_upd_twist split: if_splits)

lemma map_of_js_set:
  "map_of (js_set obj k v) c = (if k = c \<and> k \<noteq> ''__proto__'' then Some v else map_of obj c)"
  by (auto simp: js_set_def map_of_define_property update_conv')

lemma proto_key_in_keys: "''__proto__'' \<in> set object_prototype_keys"
  by (simp add: object_prototype_keys_def)

lemma js_get_js_set:
  "js_get (js_set obj k v) c = (if k = c \<and> k \<noteq> ''__proto__'' then v else js_get obj c)"
  by (auto simp: js_get_def map_of_js_set)

lemma js_get_add_to_key:
  "js_get (add_to_key acc k v) c =
     (if k = c \<and> k \<noteq> ''__proto__'' then or_zero_plus (js_get acc k) v else js_get acc c)"
  by (simp add: add_to_key_def js_get_js_set)

section \<open>Category breakdown\<close>

text \<open>
  What the memo computes when no active subscription has a category that names an
  inherited property: every value of \<open>categoryBreakdown\<close> is a number, and in exact
  arithmetic the values sum to \<open>totalMonthlyCost\<close>.
\<close>

lemma entries_define_property:
  "numeric_entries (define_property k (Number n) obj) = numeric_entries obj"
  "entries_sum (define_property k (Number n) obj) = entries_sum obj + n"
  by (induction obj) (simp_all add: numeric_entries_def entries_sum_def)

lemma entries_update:
  assumes "map_of obj k = Some (Number m)"
  shows "numeric_entries (AList.update k (Number n) obj) = numeric_entries obj"
    and "entries_sum (AList.update k (Number (m + c)) obj) = entries_sum obj + c"
  using assms
  by (induction obj) (auto simp: numeric_entries_def entries_sum_def split: if_splits)

lemma numeric_entries_lookup:
  assumes "numeric_entries obj" and "map_of obj k = Some v"
  obtains m where "v = Number m"
proof -
  from assms(2) have "(k, v) \<in> set obj" by (rule map_of_SomeD)
  with assms(1) have "case v of Number n \<Rightarrow> True | _ \<Rightarrow> False"
    by (auto simp: numeric_entries_def list_all_iff)
  then show ?thesis using that by (cases v) simp_all
qed

lemma entries_add_to_key:
  fixes acc :: "(string \<times> real jsvalue) list"
  assumes "numeric_entries acc" and "k \<notin> set object_prototype_keys"
  shows "numeric_entries (add_to_key acc k c) \<and> entries_sum (add_to_key acc k c) = entries_sum acc + c"
proof (cases "map_of acc k")
  case None
  from assms(2) have "k \<noteq> ''__proto__''" using proto_key_in_keys by auto
  with None assms show ?thesis
    by (simp add: add_to_key_def js_get_def js_set_def entries_define_property)
next
  case (Some v)
  from assms(2) have np: "k \<noteq> ''__proto__''" using proto_key_in_keys by auto
  from assms(1) Some obtain m where v: "v = Number m" by (rule numeric_entries_lookup)
  have "add_to_key acc k c = AList.update k (Number (m + c)) acc"
    using Some v np by (simp add: add_to_key_def js_get_def js_set_def)
  with Some v assms(1) show ?thesis
    by (simp add: entries_update)
qed

lemma breakdown_fold_entries:
  fixes acc :: "(string \<times> real jsvalue) list"
  assumes "numeric_entries acc"
    and "list_all (\<lambda>s. category s \<notin> set object_prototype_keys) xs"
  shows "numeric_entries (foldl (\<lambda>acc sub. add_to_key acc (category sub) (getMonthlyCost sub)) acc xs) \<and>
         entries_sum (foldl (\<lambda>acc sub. add_to_key acc (category sub) (getMonthlyCost sub)) acc xs)
           = entries_sum acc + sum_list (map getMonthlyCost xs)"
  using assms
proof (induction xs arbitrary: acc)
  case Nil
  then show ?case by simp
next
  case (Cons x xs)
  from Cons.prems have k: "category x \<notin> set object_prototype_keys"
    and rest: "list_all (\<lambda>s. category s \<notin> set object_prototype_keys) xs"
    by simp_all
  from entries_add_to_key [OF Cons.prems(1) k, of "getMonthlyCost x"]
  have num: "numeric_entries (add_to_key acc (category x) (getMonthlyCost x))"
    and sum: "entries_sum (add_to_key acc (category x) (getMonthlyCost x))
                = entries_sum acc + getMonthlyCost x"
    by simp_all
  from Cons.IH [OF num rest] sum show ?case
    by (simp add: algebra_simps)
qed

lemma categoryBreakdown_sum_in_exact_arithmetic:
  assumes "list_all (\<lambda>s. category s \<notin> set object_prototype_keys) (filter is_active subs)"
  shows "numeric_entries (categoryBreakdown (analytics lib now subs)) \<and>
         entries_sum (categoryBreakdown (analytics lib now subs))
           = totalMonthlyCost (analytics lib now subs)"
proof (cases "subs = []")
  case True
  then show ?thesis
    by (simp add: analytics_Nil initialAnalytics_def numeric_entries_def entries_sum_def)
next
  case False
  have "numeric_entries ([] :: (string \<times> real jsvalue) list)"
    by (simp add: numeric_entries_def)
  from breakdown_fold_entries [OF this assms]
  have "numeric_entries (compute_categoryBreakdown (filter is_active subs)) \<and>
        entries_sum (compute_categoryBreakdown (filter is_active subs))
          = compute_totalMonthlyCost (filter is_active subs)"
    by (simp add: compute_categoryBreakdown_def compute_totalMonthlyCost_def
        foldl_plus_sum_list entries_sum_def)
  with False show ?thesis
    by (simp add: analytics_Cons_fields)
qed

text \<open>
  Claim C6 says that the values of \<open>categoryBreakdown\<close> sum to \<open>totalMonthlyCost\<close> for every
  collection. For one active subscription of 15.99 a month with the category
  \<open>constructor\<close>, \<open>acc[sub.category]\<close> reads the inherited function, \<open>|| 0\<close> keeps it, and
  adding the cost stores a string: \<open>totalMonthlyCost\<close> is 15.99 and the only value of
  \<open>categoryBreakdown\<close> is not a number. With the category \<open>__proto__\<close> the assignment is
  ignored: \<open>totalMonthlyCost\<close> is 15.99 and \<open>categoryBreakdown\<close> has no entry at all.
\<close>

theorem categoryBreakdown_inherited_key_not_a_number:
  "totalMonthlyCost (analytics lib now [constructor_sub_a]) = 1599 / 100 \<and>
   categoryBreakdown (analytics lib now [constructor_sub_a]) = [(''constructor'', Text)] \<and>
   totalMonthlyCost (analytics lib now [proto_sub]) = 1599 / 100 \<and>
   categoryBreakdown (analytics lib now [proto_sub]) = []"
proof -
  have "filter is_active [constructor_sub_a] = [constructor_sub_a]"
    and "filter is_active [proto_sub] = [proto_sub]"
    by (simp_all add: constructor_sub_a_def proto_sub_def mockSubscription_def)
  moreover have "compute_totalMonthlyCost [constructor_sub_a] = 1599 / 100"
    and "compute_totalMonthlyCost [proto_sub] = 1599 / 100"
    by code_simp+
  moreover have "compute_categoryBreakdown [constructor_sub_a] = [(''constructor'', Text)]"
    and "compute_categoryBreakdown [proto_sub] = []"
    by code_simp+
  ultimately show ?thesis
    by (simp only: analytics_Cons_fields list.simps simp_thms not_False_eq_True)
qed

section \<open>Mindful streak\<close>

lemma streak_loop_ge: "streak \<le> streak_loop lib now subs i streak"
proof (induction lib now subs i streak rule: streak_loop.induct)
  case (1 lib now allSubscriptions i streak)
  show ?case
    using 1 by (subst streak_loop.simps) (auto simp: Let_def intro: order_trans [of _ "streak + 1"])
qed

lemma streak_loop_mono:
  assumes "set xs \<subseteq> set ys"
  shows "streak_loop lib now xs i k \<le> streak_loop lib now ys i k"
  using assms
proof (induction lib now xs i k rule: streak_loop.induct)
  case (1 lib now xs i k)
  let ?P = "\<lambda>s. isSameMonth lib (newDate lib (created_at s)) (subMonths lib now (int i))"
  show ?case
  proof (cases "i < 12 \<and> list_ex ?P xs")
    case True
    then have "list_ex ?P ys" using "1.prems" by (auto simp: list_ex_iff)
    with True have "streak_loop lib now ys i k = streak_loop lib now ys (i + 1) (k + 1)"
      by (subst streak_loop.simps) (simp add: Let_def)
    moreover from True have "streak_loop lib now xs i k = streak_loop lib now xs (i + 1) (k + 1)"
      by (subst streak_loop.simps) (simp add: Let_def)
    moreover have "streak_loop lib now xs (i + 1) (k + 1) \<le> streak_loop lib now ys (i + 1) (k + 1)"
    proof -
      from True have a: "i < 12" and b: "list_ex ?P xs" by simp_all
      show ?thesis by (rule "1.IH" [OF a refl b "1.prems"])
    qed
    ultimately show ?thesis by simp
  next
    case False
    then have "streak_loop lib now xs i k = k"
      by (subst streak_loop.simps) (auto simp: Let_def)
    then show ?thesis by (simp add: streak_loop_ge)
  qed
qed

text \<open>
  Claim C8. Removing the subscriptions created in the most recent month (the month of
  \<open>now\<close>, which the loop tests first) never increases \<open>mindfulStreak\<close>; the same holds for
  the removal of any subscriptions at all (keeping those that satisfy \<open>P\<close>).
\<close>

theorem mindfulStreak_not_increased_by_removal:
  "mindfulStreak (analytics lib now
      (filter (\<lambda>s. \<not> isSameMonth lib (newDate lib (created_at s)) (subMonths lib now 0)) subs))
     \<le> mindfulStreak (analytics lib now subs) \<and>
   mindfulStreak (analytics lib now (filter P subs)) \<le> mindfulStreak (analytics lib now subs)"
proof -
  have gen: "mindfulStreak (analytics lib now (filter Q subs)) \<le> mindfulStreak (analytics lib now subs)"
    for Q
  proof (cases "filter Q subs = []")
    case True
    then show ?thesis by (simp add: analytics_def initialAnalytics_def)
  next
    case False
    then have "subs \<noteq> []" by auto
    with False show ?thesis
      by (simp add: analytics_def Let_def compute_mindfulStreak_def streak_loop_mono)
  qed
  show ?thesis by (simp add: gen)
qed

section \<open>Duplicate-category insights\<close>

lemma recommend_step_dupes:
  "length (filter (dup_for c) (recommend_step lib now cc recs sub)) =
     (if category sub = c \<and> many_in cc c \<and> filter (dup_for c) recs = [] then 1
      else length (filter (dup_for c) recs))"
  by (auto simp: recommend_step_def Let_def list_ex_iff filter_empty_conv dup_for_def many_in_def)

lemma recommend_fold_dupes:
  "length (filter (dup_for c) (foldl (recommend_step lib now cc) recs xs)) =
     (if filter (dup_for c) recs \<noteq> [] then length (filter (dup_for c) recs)
      else if many_in cc c \<and> c \<in> category ` set xs then 1 else 0)"
proof (induction xs arbitrary: recs)
  case Nil
  then show ?case by simp
next
  case (Cons x xs)
  let ?recs' = "recommend_step lib now cc recs x"
  have step: "length (filter (dup_for c) ?recs') =
     (if category x = c \<and> many_in cc c \<and> filter (dup_for c) recs = [] then 1
      else length (filter (dup_for c) recs))"
    by (rule recommend_step_dupes)
  show ?case
  proof (cases "filter (dup_for c) recs = []")
    case True
    show ?thesis
    proof (cases "category x = c \<and> many_in cc c")
      case True
      with \<open>filter (dup_for c) recs = []\<close> step
      have "length (filter (dup_for c) ?recs') = 1" by simp
      then have "filter (dup_for c) ?recs' \<noteq> []" by auto
      with \<open>length (filter (dup_for c) ?recs') = 1\<close> True \<open>filter (dup_for c) recs = []\<close>
      show ?thesis by (simp add: Cons.IH)
    next
      case False
      with \<open>filter (dup_for c) recs = []\<close> step
      have "filter (dup_for c) ?recs' = []" by auto
      with False \<open>filter (dup_for c) recs = []\<close>
      show ?thesis by (auto simp: Cons.IH)
    qed
  next
    case False
    with step have "length (filter (dup_for c) ?recs') = length (filter (dup_for c) recs)"
      by simp
    moreover from this False have "filter (dup_for c) ?recs' \<noteq> []"
      by (metis length_0_conv)
    ultimately show ?thesis using False by (simp add: Cons.IH)
  qed
qed

text \<open>
  What the memo computes: the count stored for a category is the number of its active
  subscriptions, unless the category names an inherited property, for which no number
  is ever stored. So there is one \<open>duplicate_category\<close> insight for a category with more
  than one active subscription that is not such a name, and none for any other.
\<close>

lemma categoryCounts_fold_number:
  assumes "c \<notin> set object_prototype_keys"
    and "js_get acc c = Undefined \<or> js_get acc c = Number m"
  shows "js_get (foldl (\<lambda>acc sub. add_to_key acc (category sub) 1) acc xs) c =
     (if length (filter (\<lambda>s. category s = c) xs) = 0 then js_get acc c
      else Number ((case js_get acc c of Number n \<Rightarrow> n | _ \<Rightarrow> 0)
                   + length (filter (\<lambda>s. category s = c) xs)))"
  using assms(2)
proof (induction xs arbitrary: acc m)
  case Nil
  then show ?case by simp
next
  case (Cons x xs)
  from assms(1) have np: "c \<noteq> ''__proto__''"
    using proto_key_in_keys by auto
  show ?case
  proof (cases "category x = c")
    case True
    let ?acc' = "add_to_key acc (category x) 1"
    from Cons.prems True np
    have get': "js_get ?acc' c = Number ((case js_get acc c of Number n \<Rightarrow> n | _ \<Rightarrow> 0) + 1)"
      by (auto simp: js_get_add_to_key)
    then have "js_get ?acc' c = Undefined \<or> js_get ?acc' c
                 = Number ((case js_get acc c of Number n \<Rightarrow> n | _ \<Rightarrow> 0) + 1)"
      by simp
    from Cons.IH [OF this] get' True show ?thesis by simp
  next
    case False
    let ?acc' = "add_to_key acc (category x) 1"
    from False have same: "js_get ?acc' c = js_get acc c"
      by (simp add: js_get_add_to_key)
    with Cons.prems have "js_get ?acc' c = Undefined \<or> js_get ?acc' c = Number m" by simp
    from Cons.IH [OF this] same False show ?thesis by simp
  qed
qed

lemma categoryCounts_fold_inherited:
  assumes "c \<in> set object_prototype_keys"
    and "js_get acc c = Object \<or> js_get acc c = Text"
  shows "js_get (foldl (\<lambda>acc sub. add_to_key acc (category sub) (1::nat)) acc xs) c = Object \<or>
         js_get (foldl (\<lambda>acc sub. add_to_key acc (category sub) (1::nat)) acc xs) c = Text"
  using assms(2)
proof (induction xs arbitrary: acc)
  case Nil
  then show ?case by simp
next
  case (Cons x xs)
  let ?acc' = "add_to_key acc (category x) 1"
  from Cons.prems have "js_get ?acc' c = Object \<or> js_get ?acc' c = Text"
    by (auto simp: js_get_add_to_key)
  from Cons.IH [OF this] show ?case by simp
qed

lemma many_in_categoryCounts:
  "many_in (compute_categoryCounts xs) c \<and> c \<in> category ` set xs
     \<longleftrightarrow> c \<notin> set object_prototype_keys \<and> 1 < length (filter (\<lambda>s. category s = c) xs)"
proof (cases "c \<in> set object_prototype_keys")
  case True
  have "js_get ([] :: (string \<times> nat jsvalue) list) c = Object"
    using True by (simp add: js_get_def)
  then have "js_get (compute_categoryCounts xs) c = Object \<or> js_get (compute_categoryCounts xs) c = Text"
    unfolding compute_categoryCounts_def
    by (intro categoryCounts_fold_inherited [OF True]) simp
  then have "\<not> many_in (compute_categoryCounts xs) c"
    by (auto simp: many_in_def)
  with True show ?thesis by simp
next
  case False
  have mem: "c \<in> category ` set xs \<longleftrightarrow> filter (\<lambda>s. category s = c) xs \<noteq> []"
    by (auto simp: filter_empty_conv)
  have start: "js_get ([] :: (string \<times> nat jsvalue) list) c = Undefined"
    using False by (simp add: js_get_def)
  then have "js_get ([] :: (string \<times> nat jsvalue) list) c = Undefined \<or>
             js_get ([] :: (string \<times> nat jsvalue) list) c = Number 0"
    by simp
  from categoryCounts_fold_number [OF False this, of xs]
  have "js_get (compute_categoryCounts xs) c =
     (if length (filter (\<lambda>s. category s = c) xs) = 0 then Undefined
      else Number (length (filter (\<lambda>s. category s = c) xs)))"
    unfolding compute_categoryCounts_def by (simp add: start)
  then show ?thesis
    using mem False by (auto simp: many_in_def)
qed

lemma duplicate_category_insight_count:
  "length (filter (\<lambda>i. insight_type i = duplicate_category \<and> category (subscription i) = c)
             (recommendations (analytics lib now subs)))
     = (if c \<notin> set object_prototype_keys \<and>
           1 < length (filter (\<lambda>s. is_active s \<and> category s = c) subs) then 1 else 0)"
proof (cases "subs = []")
  case True
  then show ?thesis by (simp add: analytics_def initialAnalytics_def)
next
  case False
  let ?act = "filter is_active subs"
  have "length (filter (dup_for c) (compute_recommendations lib now ?act))
          = (if many_in (compute_categoryCounts ?act) c \<and> c \<in> category ` set ?act then 1 else 0)"
    unfolding compute_recommendations_def Let_def
    by (simp add: recommend_fold_dupes)
  also have "\<dots> = (if c \<notin> set object_prototype_keys \<and>
                       1 < length (filter (\<lambda>s. category s = c) ?act) then 1 else 0)"
    using many_in_categoryCounts [of ?act c] by simp
  finally have "length (filter (dup_for c) (compute_recommendations lib now ?act))
          = (if c \<notin> set object_prototype_keys \<and>
                1 < length (filter (\<lambda>s. is_active s \<and> category s = c) subs) then 1 else 0)"
    by (simp add: conj_commute)
  moreover have "dup_for c = (\<lambda>i. insight_type i = duplicate_category \<and> category (subscription i) = c)"
    by (simp add: dup_for_def fun_eq_iff)
  ultimately show ?thesis
    using False by (simp add: analytics_def Let_def)
qed

text \<open>
  Claim C4 says that a category with more than one active subscription gets exactly one
  \<open>duplicate_category\<close> insight. For two active subscriptions with the category
  \<open>constructor\<close>, \<open>categoryCounts\<close> holds a string under that key, \<open>categoryCounts[sub.category] > 1\<close>
  is false, and \<open>recommendations\<close> is empty.
\<close>

theorem no_duplicate_insight_for_inherited_key:
  "is_active constructor_sub_a \<and> category constructor_sub_a = ''constructor'' \<and>
   is_active constructor_sub_b \<and> category constructor_sub_b = ''constructor'' \<and>
   compute_categoryCounts [constructor_sub_a, constructor_sub_b] = [(''constructor'', Text)] \<and>
   recommendations (analytics lib now [constructor_sub_a, constructor_sub_b]) = []"
proof -
  have act: "filter is_active [constructor_sub_a, constructor_sub_b]
               = [constructor_sub_a, constructor_sub_b]"
    by (simp add: constructor_sub_a_def constructor_sub_b_def mockSubscription_def)
  have counts: "compute_categoryCounts [constructor_sub_a, constructor_sub_b]
                  = [(''constructor'', Text)]"
    by code_simp
  have "compute_recommendations lib now [constructor_sub_a, constructor_sub_b] = []"
    unfolding compute_recommendations_def Let_def counts
    by (simp add: recommend_step_def Let_def js_get_def truthy_number_def truthy_string_def
        first_price_def constructor_sub_a_def constructor_sub_b_def mockSubscription_def)
  moreover have "recommendations (analytics lib now [constructor_sub_a, constructor_sub_b])
      = compute_recommendations lib now (filter is_active [constructor_sub_a, constructor_sub_b])"
    by (rule analytics_Cons_fields) simp
  moreover have "is_active constructor_sub_a \<and> category constructor_sub_a = ''constructor'' \<and>
     is_active constructor_sub_b \<and> category constructor_sub_b = ''constructor''"
    by (simp add: constructor_sub_a_def constructor_sub_b_def mockSubscription_def)
  ultimately show ?thesis
    by (simp only: act counts simp_thms)
qed

section \<open>Classifier thresholds\<close>

text \<open>
  Claim C9. \<open>generateRecommendation\<close> returns \<open>keep\<close> exactly when the score is at least 40,
  \<open>review\<close> exactly when it is at least 10 and below 40, and \<open>cancel\<close> exactly when it is
  below 10. The confidence depends on the score alone and is clamped: it is
  \<open>min(0.9, score / 50)\<close> for \<open>keep\<close>, the constant \<open>0.7\<close> for \<open>review\<close> and
  \<open>min(0.9, |score| / 30)\<close> for \<open>cancel\<close>, hence always between 0 and 0.9.
\<close>

theorem generateRecommendation_thresholds:
  "(recommendation (generateRecommendation sub uf vt cpu) = keep
      \<longleftrightarrow> 40 \<le> recommendation_score sub uf vt cpu) \<and>
   (recommendation (generateRecommendation sub uf vt cpu) = review
      \<longleftrightarrow> 10 \<le> recommendation_score sub uf vt cpu \<and> recommendation_score sub uf vt cpu < 40) \<and>
   (recommendation (generateRecommendation sub uf vt cpu) = cancel
      \<longleftrightarrow> recommendation_score sub uf vt cpu < 10) \<and>
   confidence (generateRecommendation sub uf vt cpu) =
     (if 40 \<le> recommendation_score sub uf vt cpu
        then min (9 / 10) (real_of_int (recommendation_score sub uf vt cpu) / 50)
      else if 10 \<le> recommendation_score sub uf vt cpu then 7 / 10
      else min (9 / 10) (real_of_int \<bar>recommendation_score sub uf vt cpu\<bar> / 30)) \<and>
   0 \<le> confidence (generateRecommendation sub uf vt cpu) \<and>
   confidence (generateRecommendation sub uf vt cpu) \<le> 9 / 10"
proof -
  let ?score = "recommendation_score sub uf vt cpu"
  let ?r = "generateRecommendation sub uf vt cpu"
  have rec: "recommendation ?r = (if 40 \<le> ?score then keep else if 10 \<le> ?score then review else cancel)"
    by (simp add: generateRecommendation_def Let_def)
  have conf: "confidence ?r =
     (if 40 \<le> ?score then min (9 / 10) (real_of_int ?score / 50)
      else if 10 \<le> ?score then 7 / 10
      else min (9 / 10) (real_of_int \<bar>?score\<bar> / 30))"
    by (simp add: generateRecommendation_def Let_def)
  have lower: "0 \<le> confidence ?r"
    unfolding conf by (simp add: min_def)
  have upper: "confidence ?r \<le> 9 / 10"
    unfolding conf by (simp add: min_def)
  from rec have "recommendation ?r = keep \<longleftrightarrow> 40 \<le> ?score"
    and "recommendation ?r = review \<longleftrightarrow> 10 \<le> ?score \<and> ?score < 40"
    and "recommendation ?r = cancel \<longleftrightarrow> ?score < 10"
    by (auto split: if_splits)
  with conf lower upper show ?thesis by blast
qed

text \<open>One input in each band: scores 95, 30 and -50.\<close>

theorem generateRecommendation_thresholds_witness:
  "recommendation_score (mockSubscription\<lparr>value_rating := Some 5\<rparr>) ''daily'' ''increasing'' (Finite (1 / 2)) = 95 \<and>
   recommendation (generateRecommendation (mockSubscription\<lparr>value_rating := Some 5\<rparr>)
      ''daily'' ''increasing'' (Finite (1 / 2))) = keep \<and>
   confidence (generateRecommendation (mockSubscription\<lparr>value_rating := Some 5\<rparr>)
      ''daily'' ''increasing'' (Finite (1 / 2))) = 9 / 10 \<and>
   recommendation_score mockSubscription ''weekly'' ''stable'' (Finite 10) = 30 \<and>
   recommendation (generateRecommendation mockSubscription ''weekly'' ''stable'' (Finite 10)) = review \<and>
   confidence (generateRecommendation mockSubscription ''weekly'' ''stable'' (Finite 10)) = 7 / 10 \<and>
   recommendation_score mockSubscription ''never'' ''stable'' Infinity = - 50 \<and>
   recommendation (generateRecommendation mockSubscription ''never'' ''stable'' Infinity) = cancel \<and>
   confidence (generateRecommendation mockSubscription ''never'' ''stable'' Infinity) = 9 / 10"
proof -
  have s1: "recommendation_score (mockSubscription\<lparr>value_rating := Some 5\<rparr>) ''daily'' ''increasing''
              (Finite (1 / 2)) = 95"
    by (simp add: recommendation_score_def usage_score_def rating_score_def cost_score_def
        trend_score_def truthy_number_def mockSubscription_def)
  have s2: "recommendation_score mockSubscription ''weekly'' ''stable'' (Finite 10) = 30"
    by (simp add: recommendation_score_def usage_score_def rating_score_def cost_score_def
        trend_score_def truthy_number_def mockSubscription_def)
  have s3: "recommendation_score mockSubscription ''never'' ''stable'' Infinity = - 50"
    by (simp add: recommendation_score_def usage_score_def rating_score_def cost_score_def
        trend_score_def truthy_number_def mockSubscription_def)
  show ?thesis
    using generateRecommendation_thresholds
        [of "mockSubscription\<lparr>value_rating := Some 5\<rparr>" "''daily''" "''increasing''" "Finite (1 / 2)"]
      generateRecommendation_thresholds [of mockSubscription "''weekly''" "''stable''" "Finite 10"]
      generateRecommendation_thresholds [of mockSubscription "''never''" "''stable''" Infinity]
    by (simp add: s1 s2 s3)
qed

end
